theory Spec2Isabelle
  imports Complex_Main "HOL-Library.Multiset"
begin

section \<open>JavaScript helpers\<close>

text \<open>
  The array primitives of the source that the embedded functions use. Indices are
  JavaScript numbers holding integers; they are modelled as \<open>int\<close>, and what the
  primitives do with a negative or too large index is written out.
\<close>

text \<open>The relative-index normalisation of \<open>Array.prototype.splice\<close> and \<open>slice\<close>:
  a negative index counts from the end, and the result is clamped to \<open>0..len\<close>.\<close>

definition js_index :: "int \<Rightarrow> nat \<Rightarrow> nat" where
  "js_index i n = (if i < 0 then nat (max (int n + i) 0) else min (nat i) n)"

text \<open>\<open>xs.slice(0, e)\<close>.\<close>

definition js_slice0 :: "int \<Rightarrow> 'a list \<Rightarrow> 'a list" where
  "js_slice0 e xs = take (js_index e (length xs)) xs"

text \<open>\<open>xs[i]\<close>: \<open>None\<close> stands for \<open>undefined\<close>, the value of a read out of range.\<close>

definition js_nth :: "'a list \<Rightarrow> int \<Rightarrow> 'a option" where
  "js_nth xs i = (if 0 \<le> i \<and> i < int (length xs) then Some (xs ! nat i) else None)"

text \<open>\<open>const [item] = xs.splice(start, 1)\<close>: the removed element (\<open>undefined\<close> when
  \<open>start\<close> is at or past the end) and the array that is left.\<close>

definition splice_remove1 :: "int \<Rightarrow> 'a list \<Rightarrow> 'a option \<times> 'a list" where
  "splice_remove1 start xs =
     (let k = js_index start (length xs)
      in (if k < length xs then Some (xs ! k) else None, take k xs @ drop (Suc k) xs))"

text \<open>\<open>xs.splice(start, 0, x)\<close>.\<close>

definition splice_insert :: "int \<Rightarrow> 'a \<Rightarrow> 'a list \<Rightarrow> 'a list" where
  "splice_insert start x xs =
     (let k = js_index start (length xs) in take k xs @ x # drop k xs)"

text \<open>\<open>xs.findIndex(p)\<close>, with \<open>None\<close> for the result \<open>-1\<close>.\<close>

fun findIndex :: "('a \<Rightarrow> bool) \<Rightarrow> 'a list \<Rightarrow> nat option" where
  "findIndex p [] = None"
| "findIndex p (x # xs) =
     (if p x then Some 0 else map_option Suc (findIndex p xs))"

text \<open>Decimal printing of a non-negative integer, as a template literal prints it.\<close>

fun string_of_nat :: "nat \<Rightarrow> string" where
  "string_of_nat n =
     (if n < 10 then [''0123456789'' ! n]
      else string_of_nat (n div 10) @ [''0123456789'' ! (n mod 10)])"

declare string_of_nat.simps [simp del]

text \<open>Left padding with zeros to \<open>f\<close> digits (the fraction digits of \<open>toFixed\<close>).\<close>

definition pad_zeros :: "nat \<Rightarrow> string \<Rightarrow> string" where
  "pad_zeros f ds = replicate (f - length ds) (CHR ''0'') @ ds"

text \<open>
  \<open>(a / b).toFixed(f)\<close> for integers \<open>a\<close> and \<open>b > 0\<close>: the nearest multiple of
  \<open>10^-f\<close>, the larger one at a tie, printed with exactly \<open>f\<close> fraction digits.
  The quotient is taken exactly here. The source computes it in binary floating point,
  which gives the same digits whenever the quotient is an integer (as at every value
  the statements below evaluate) and can differ in the last digit at a tie: for
  \<open>30150 / 1000\<close> the source prints \<open>30.1\<close>, the double being just below the tie,
  where the exact quotient gives \<open>30.2\<close>. From \<open>1e21\<close> on the source prints exponent
  notation, which is not modelled.
\<close>

definition toFixed :: "nat \<Rightarrow> int \<Rightarrow> int \<Rightarrow> string" where
  "toFixed f a b =
     (let n = nat ((2 * \<bar>a\<bar> * 10 ^ f + b) div (2 * b));
          whole = string_of_nat (n div 10 ^ f);
          frac = (if f = 0 then [] else ''.'' @ pad_zeros f (string_of_nat (n mod 10 ^ f)))
      in (if a < 0 then ''-'' else []) @ whole @ frac)"


section \<open>The frame timeline (useFrames.ts)\<close>

text \<open>
  \<open>fabricJson\<close> is the serialised canvas of the frame; its type is a parameter here and
  is instantiated with the canvas model below. Delays are integers of milliseconds.
\<close>

record 'j frame =
  fid :: string
  dataUrl :: string
  fabricJson :: 'j
  delay :: int

text \<open>
  \<open>addFrame\<close>. The identifier is built in the source from the clock and a random
  number; the model takes it as the argument \<open>new_id\<close>. The result is the frame
  returned and the timeline after the push.
\<close>

definition addFrame :: "string \<Rightarrow> string \<Rightarrow> 'j \<Rightarrow> int \<Rightarrow> 'j frame list \<Rightarrow> 'j frame \<times> 'j frame list" where
  "addFrame new_id url json d fs =
     (let fr = \<lparr>fid = new_id, dataUrl = url, fabricJson = json, delay = d\<rparr>
      in (fr, fs @ [fr]))"

definition deleteFrame :: "string \<Rightarrow> 'j frame list \<Rightarrow> 'j frame list" where
  "deleteFrame i fs = filter (\<lambda>f. fid f \<noteq> i) fs"

definition duplicateFrame :: "string \<Rightarrow> string \<Rightarrow> 'j frame list \<Rightarrow> 'j frame list" where
  "duplicateFrame new_id i fs =
     (case findIndex (\<lambda>f. fid f = i) fs of
        None \<Rightarrow> fs
      | Some idx \<Rightarrow>
          (let original = fs ! idx;
               copy = original\<lparr>fid := new_id\<rparr>
           in splice_insert (int idx + 1) copy fs))"

text \<open>
  \<open>reorderFrames\<close>. When \<open>fromIndex\<close> is out of range the first \<open>splice\<close> removes
  nothing and \<open>item\<close> is \<open>undefined\<close>, which the second \<open>splice\<close> then inserts: the
  result is a list of slots, \<open>None\<close> being such an \<open>undefined\<close> slot.
\<close>

definition reorderFrames :: "int \<Rightarrow> int \<Rightarrow> 'j frame list \<Rightarrow> 'j frame option list" where
  "reorderFrames fromIndex toIndex fs =
     (if fromIndex = toIndex then map Some fs
      else (let (item, rest) = splice_remove1 fromIndex fs
            in splice_insert toIndex item (map Some rest)))"

text \<open>\<open>updateDelay\<close>: \<open>find\<close> yields the first frame with the identifier, whose delay
  is overwritten in place.\<close>

fun updateDelay :: "string \<Rightarrow> int \<Rightarrow> 'j frame list \<Rightarrow> 'j frame list" where
  "updateDelay i d [] = []"
| "updateDelay i d (f # fs) =
     (if fid f = i then f\<lparr>delay := d\<rparr> # fs else f # updateDelay i d fs)"

definition setAllDelays :: "int \<Rightarrow> 'j frame list \<Rightarrow> 'j frame list" where
  "setAllDelays d fs = map (\<lambda>f. f\<lparr>delay := d\<rparr>) fs"

definition clearFrames :: "'j frame list \<Rightarrow> 'j frame list" where
  "clearFrames fs = []"


section \<open>The compliance checker (utils/complianceChecker.ts)\<close>

record complianceResult =
  valid :: bool
  warnings :: "string list"

definition frames_warning :: "nat \<Rightarrow> string" where
  "frames_warning n =
     ''Too many frames ('' @ string_of_nat n @ ''/10). WeChat allows max 10 frames.''"

definition duration_warning :: "int \<Rightarrow> string" where
  "duration_warning ms =
     ''Total animation duration '' @ toFixed 1 ms 1000 @ ''s exceeds 30s limit.''"

definition size_warning :: "int \<Rightarrow> string" where
  "size_warning bytes =
     ''Estimated file size '' @ toFixed 0 bytes 1024 @ ''KB exceeds WeChat's 500KB limit.''"

text \<open>\<open>frames.reduce((sum, f) => sum + f.delay, 0)\<close>.\<close>

definition totalDurationMs :: "'j frame list \<Rightarrow> int" where
  "totalDurationMs fs = foldl (\<lambda>sum f. sum + delay f) 0 fs"

text \<open>
  \<open>checkCompliance\<close>. The optional second argument is \<open>None\<close> when it is left out;
  the test \<open>estimatedFileSizeBytes && ...\<close> also skips a size of \<open>0\<close>.
\<close>

definition checkCompliance :: "'j frame list \<Rightarrow> int option \<Rightarrow> complianceResult" where
  "checkCompliance fs estimatedFileSizeBytes =
     (let w1 = (if length fs > 10 then [frames_warning (length fs)] else []);
          w2 = (if totalDurationMs fs > 30000
                then w1 @ [duration_warning (totalDurationMs fs)] else w1);
          w3 = (case estimatedFileSizeBytes of
                  None \<Rightarrow> w2
                | Some b \<Rightarrow> if b \<noteq> 0 \<and> b > 500 * 1024 then w2 @ [size_warning b] else w2)
      in \<lparr>valid = (length w3 = 0), warnings = w3\<rparr>)"


section \<open>The canvas\<close>

text \<open>
  The fabric canvas is a collaborator of the editor: it holds the objects, fires
  \<open>object:added\<close>, \<open>object:modified\<close> and \<open>object:removed\<close> at the handlers the
  editor registers, and serialises itself. The model keeps what the editor reads and
  writes. An object has an identity (\<open>oid\<close>), since the editor keeps a reference to
  the shape being drawn; coordinates are exact numbers.
\<close>

datatype toolType = Select | Pencil | Text | Rect | Circle | Eraser

datatype shape =
    FRect real real
  | FEllipse real real
  | FIText string string int
  | FPath string
  | FImage string

text \<open>The serialised properties of an object: position, the class with its own
  geometry (width and height, the two radii, or text, font family and font size),
  and style.\<close>

record sobject =
  o_left :: real
  o_top :: real
  o_shape :: shape
  o_fill :: string
  o_stroke :: string
  o_strokeWidth :: real

record fobject =
  oid :: nat
  selectable :: bool
  props :: sobject

text \<open>What \<open>canvas.toJSON()\<close> holds: the objects in paint order and the background.
  \<open>JSON.stringify\<close> of it is modelled by the value itself.\<close>

record snapshot =
  s_objects :: "sobject list"
  s_background :: string

text \<open>The result of \<open>getCanvasJSON\<close>: the literal \<open>'{}'\<close> without a canvas.\<close>

datatype json = EmptyObject | CanvasJSON snapshot

text \<open>
  \<open>listeners\<close> records whose \<open>mouse:down\<close>, \<open>mouse:move\<close> and \<open>mouse:up\<close>
  handlers \<open>_applyTool\<close> has registered (\<open>None\<close> after \<open>canvas.off\<close>); \<open>next_oid\<close>
  is the identity of the next object created.
\<close>

record canvas =
  objects :: "fobject list"
  backgroundColor :: string
  isDrawingMode :: bool
  selection :: bool
  defaultCursor :: string
  freeDrawingBrush :: "(string \<times> int) option"
  listeners :: "toolType option"
  activeObject :: "nat option"
  next_oid :: nat

definition toJSON :: "canvas \<Rightarrow> snapshot" where
  "toJSON c = \<lparr>s_objects = map props (objects c), s_background = backgroundColor c\<rparr>"

definition blank_canvas :: canvas where
  "blank_canvas =
     \<lparr>objects = [], backgroundColor = ''#ffffff'', isDrawingMode = False, selection = True,
      defaultCursor = ''default'', freeDrawingBrush = None, listeners = None,
      activeObject = None, next_oid = 0\<rparr>"


section \<open>The editor state and its history (composables/useCanvas.ts)\<close>

text \<open>The variables closed over by \<open>useCanvas\<close>. \<open>activeShape\<close> is the reference
  \<open>_activeShape\<close>, held as the identity of the object.\<close>

record useCanvas =
  activeTool :: toolType
  brushColor :: string
  brushSize :: int
  fillColor :: string
  strokeColor :: string
  fontSize :: int
  fontFamily :: string
  textColor :: string
  isTransparentBg :: bool
  canvas :: "canvas option"
  history :: "snapshot list"
  historyIndex :: int
  isRestoringHistory :: bool
  shapeStartX :: real
  shapeStartY :: real
  activeShape :: "nat option"
  isDrawingShape :: bool

definition init :: useCanvas where
  "init =
     \<lparr>activeTool = Select, brushColor = ''#000000'', brushSize = 6,
      fillColor = ''#ff6b6b'', strokeColor = ''#333333'', fontSize = 32,
      fontFamily = ''Arial'', textColor = ''#333333'', isTransparentBg = False,
      canvas = None, history = [], historyIndex = - 1, isRestoringHistory = False,
      shapeStartX = 0, shapeStartY = 0, activeShape = None, isDrawingShape = False\<rparr>"

definition map_canvas :: "(canvas \<Rightarrow> canvas) \<Rightarrow> useCanvas \<Rightarrow> useCanvas" where
  "map_canvas f st = st\<lparr>canvas := map_option f (canvas st)\<rparr>"

text \<open>\<open>_saveHistory\<close>.\<close>

definition saveHistory :: "useCanvas \<Rightarrow> useCanvas" where
  "saveHistory st =
     (case canvas st of
        None \<Rightarrow> st
      | Some c \<Rightarrow>
          if isRestoringHistory st then st
          else
            (let h1 = (if historyIndex st < int (length (history st)) - 1
                       then js_slice0 (historyIndex st + 1) (history st)
                       else history st);
                 h2 = h1 @ [toJSON c];
                 i2 = int (length h2) - 1
             in if length h2 > 50
                then st\<lparr>history := tl h2, historyIndex := i2 - 1\<rparr>
                else st\<lparr>history := h2, historyIndex := i2\<rparr>))"

text \<open>The three handlers that \<open>setCanvas\<close> registers on the canvas.\<close>

datatype canvas_event = ObjectAdded | ObjectModified | ObjectRemoved

definition fire :: "canvas_event \<Rightarrow> useCanvas \<Rightarrow> useCanvas" where
  "fire ev st =
     (case ev of
        ObjectAdded \<Rightarrow> if \<not> isRestoringHistory st then saveHistory st else st
      | ObjectModified \<Rightarrow> saveHistory st
      | ObjectRemoved \<Rightarrow> saveHistory st)"

text \<open>
  A mutation of the scene as the editor sees it: the canvas changes its objects and
  then fires the event of the change.
\<close>

type_synonym mutation = "canvas_event \<times> (fobject list \<Rightarrow> fobject list)"

definition mutate :: "mutation \<Rightarrow> useCanvas \<Rightarrow> useCanvas" where
  "mutate m st = fire (fst m) (map_canvas (\<lambda>c. c\<lparr>objects := snd m (objects c)\<rparr>) st)"

text \<open>\<open>canvas.add(obj)\<close> for a new object: it is painted last and \<open>object:added\<close> fires.\<close>

definition canvas_add :: "sobject \<Rightarrow> bool \<Rightarrow> useCanvas \<Rightarrow> useCanvas" where
  "canvas_add p sel st =
     fire ObjectAdded
       (map_canvas (\<lambda>c. c\<lparr>objects := objects c @ [\<lparr>oid = next_oid c, selectable = sel, props = p\<rparr>],
                           next_oid := Suc (next_oid c)\<rparr>) st)"

text \<open>\<open>obj.set(...)\<close> on the object with the given identity; no event fires.\<close>

definition object_set :: "nat \<Rightarrow> (fobject \<Rightarrow> fobject) \<Rightarrow> useCanvas \<Rightarrow> useCanvas" where
  "object_set i f st =
     map_canvas (\<lambda>c. c\<lparr>objects := map (\<lambda>ob. if oid ob = i then f ob else ob) (objects c)\<rparr>) st"

text \<open>
  \<open>canvas.loadFromJSON(snap, reviver)\<close>. The source imports a fabric that has
  \<open>FabricImage\<close> and a promise-returning \<open>fromURL\<close>, which is fabric 6: there the
  second argument is a reviver, called once for each object of the snapshot when that
  object has been created, before the canvas is touched, and not at all for a snapshot
  without objects. Then the canvas is cleared, which removes the objects one by one
  and fires \<open>object:removed\<close> after each removal; the new objects are added, all of
  them pushed before \<open>object:added\<close> fires once for each; last the background is set.
  Loading is taken to complete before the next user event.
\<close>

fun mk_objects :: "nat \<Rightarrow> sobject list \<Rightarrow> fobject list" where
  "mk_objects n [] = []"
| "mk_objects n (p # ps) = \<lparr>oid = n, selectable = True, props = p\<rparr> # mk_objects (Suc n) ps"

fun remove_each :: "nat \<Rightarrow> useCanvas \<Rightarrow> useCanvas" where
  "remove_each 0 st = st"
| "remove_each (Suc n) st =
     remove_each n (fire ObjectRemoved (map_canvas (\<lambda>c. c\<lparr>objects := tl (objects c)\<rparr>) st))"

definition canvas_clear :: "useCanvas \<Rightarrow> useCanvas" where
  "canvas_clear st =
     (case canvas st of
        None \<Rightarrow> st
      | Some c \<Rightarrow> remove_each (length (objects c)) (map_canvas (\<lambda>c. c\<lparr>activeObject := None\<rparr>) st))"

definition push_objects :: "sobject list \<Rightarrow> canvas \<Rightarrow> canvas" where
  "push_objects ps c =
     c\<lparr>objects := objects c @ mk_objects (next_oid c) ps, next_oid := next_oid c + length ps\<rparr>"

definition add_all :: "sobject list \<Rightarrow> useCanvas \<Rightarrow> useCanvas" where
  "add_all ps st = (fire ObjectAdded ^^ length ps) (map_canvas (push_objects ps) st)"

definition loadFromJSON :: "snapshot \<Rightarrow> (useCanvas \<Rightarrow> useCanvas) \<Rightarrow> useCanvas \<Rightarrow> useCanvas" where
  "loadFromJSON snap reviver st =
     map_canvas (\<lambda>c. c\<lparr>backgroundColor := s_background snap\<rparr>)
       (add_all (s_objects snap)
          (canvas_clear (foldl (\<lambda>s p. reviver s) st (s_objects snap))))"

text \<open>The function that \<open>undo\<close> and \<open>redo\<close> pass as the second argument: \<open>renderAll\<close>,
  then the flag is reset.\<close>

definition restored :: "useCanvas \<Rightarrow> useCanvas" where
  "restored st = st\<lparr>isRestoringHistory := False\<rparr>"

text \<open>\<open>setCanvas\<close>: the handlers of \<open>fire\<close> are registered and the initial state is saved.\<close>

definition setCanvas :: "canvas \<Rightarrow> useCanvas \<Rightarrow> useCanvas" where
  "setCanvas c st = saveHistory (st\<lparr>canvas := Some c\<rparr>)"

definition undo :: "useCanvas \<Rightarrow> useCanvas" where
  "undo st =
     (case canvas st of
        None \<Rightarrow> st
      | Some c \<Rightarrow>
          if historyIndex st \<le> 0 then st
          else
            (let st1 = st\<lparr>historyIndex := historyIndex st - 1, isRestoringHistory := True\<rparr>
             in case js_nth (history st1) (historyIndex st1) of
                  None \<Rightarrow> st1
                | Some snap \<Rightarrow> loadFromJSON snap restored st1))"

definition redo :: "useCanvas \<Rightarrow> useCanvas" where
  "redo st =
     (case canvas st of
        None \<Rightarrow> st
      | Some c \<Rightarrow>
          if historyIndex st \<ge> int (length (history st)) - 1 then st
          else
            (let st1 = st\<lparr>historyIndex := historyIndex st + 1, isRestoringHistory := True\<rparr>
             in case js_nth (history st1) (historyIndex st1) of
                  None \<Rightarrow> st1
                | Some snap \<Rightarrow> loadFromJSON snap restored st1))"

definition canUndo :: "useCanvas \<Rightarrow> bool" where
  "canUndo st = (historyIndex st > 0)"

definition canRedo :: "useCanvas \<Rightarrow> bool" where
  "canRedo st = (historyIndex st < int (length (history st)) - 1)"

text \<open>\<open>exportPng\<close>, with the rasteriser \<open>toDataURL\<close> of the canvas as a parameter.\<close>

definition exportPng :: "(canvas \<Rightarrow> string) \<Rightarrow> useCanvas \<Rightarrow> string \<times> useCanvas" where
  "exportPng toDataURL st =
     (case canvas st of
        None \<Rightarrow> ([], st)
      | Some c \<Rightarrow>
          (let c' = c\<lparr>activeObject := None\<rparr>
           in (toDataURL c', st\<lparr>canvas := Some c'\<rparr>)))"

definition getCanvasJSON :: "useCanvas \<Rightarrow> json" where
  "getCanvasJSON st =
     (case canvas st of None \<Rightarrow> EmptyObject | Some c \<Rightarrow> CanvasJSON (toJSON c))"


section \<open>Tools and the shape gesture (composables/useCanvas.ts)\<close>

definition removeShapeListeners :: "useCanvas \<Rightarrow> useCanvas" where
  "removeShapeListeners st = map_canvas (\<lambda>c. c\<lparr>listeners := None\<rparr>) st"

definition set_all_selectable :: "bool \<Rightarrow> canvas \<Rightarrow> canvas" where
  "set_all_selectable b c = c\<lparr>objects := map (\<lambda>ob. ob\<lparr>selectable := b\<rparr>) (objects c)\<rparr>"

text \<open>\<open>_applyTool\<close>. The handlers that the \<open>text\<close>, \<open>rect\<close> and \<open>circle\<close> cases register
  are the functions \<open>text_mouse_down\<close> and \<open>shape_mouse_down\<close>, \<open>shape_mouse_move\<close>,
  \<open>shape_mouse_up\<close> below; \<open>listeners\<close> records which are installed.\<close>

definition applyTool :: "toolType \<Rightarrow> useCanvas \<Rightarrow> useCanvas" where
  "applyTool tool st0 =
     (case canvas st0 of
        None \<Rightarrow> st0
      | Some c0 \<Rightarrow>
          (let st = map_canvas (\<lambda>c. c\<lparr>isDrawingMode := False, selection := True,
                                        defaultCursor := ''default''\<rparr>)
                      (removeShapeListeners st0)
           in case tool of
                Select \<Rightarrow> map_canvas (set_all_selectable True) st
              | Pencil \<Rightarrow>
                  map_canvas (\<lambda>c. set_all_selectable False
                      (c\<lparr>isDrawingMode := True,
                         freeDrawingBrush := Some (brushColor st, brushSize st)\<rparr>)) st
              | Eraser \<Rightarrow>
                  map_canvas (\<lambda>c. set_all_selectable False
                      (c\<lparr>isDrawingMode := True,
                         freeDrawingBrush :=
                           Some (if isTransparentBg st then ''rgba(0,0,0,0)''
                                 else if backgroundColor c = [] then ''#ffffff''
                                 else backgroundColor c,
                                 brushSize st * 2)\<rparr>)) st
              | Text \<Rightarrow>
                  map_canvas (\<lambda>c. (set_all_selectable False
                      (c\<lparr>defaultCursor := ''text'', selection := False\<rparr>))\<lparr>listeners := Some Text\<rparr>) st
              | Rect \<Rightarrow>
                  map_canvas (\<lambda>c. (set_all_selectable False
                      (c\<lparr>selection := False, defaultCursor := ''crosshair''\<rparr>))\<lparr>listeners := Some Rect\<rparr>) st
              | Circle \<Rightarrow>
                  map_canvas (\<lambda>c. (set_all_selectable False
                      (c\<lparr>selection := False, defaultCursor := ''crosshair''\<rparr>))\<lparr>listeners := Some Circle\<rparr>) st))"

definition setTool :: "toolType \<Rightarrow> useCanvas \<Rightarrow> useCanvas" where
  "setTool tool st = applyTool tool (st\<lparr>activeTool := tool\<rparr>)"

text \<open>The \<open>mouse:down\<close> handler of the text tool. The inline editing that follows
  (\<open>enterEditing\<close>, \<open>editing:exited\<close>) is the canvas's own and is not modelled.\<close>

definition text_mouse_down :: "real \<times> real \<Rightarrow> useCanvas \<Rightarrow> useCanvas" where
  "text_mouse_down pointer st =
     (case canvas st of
        None \<Rightarrow> st
      | Some c \<Rightarrow>
          (let itext = \<lparr>o_left = fst pointer, o_top = snd pointer,
                        o_shape = FIText [] (fontFamily st) (fontSize st),
                        o_fill = textColor st, o_stroke = [], o_strokeWidth = 1\<rparr>
           in map_canvas (\<lambda>c'. c'\<lparr>activeObject := Some (next_oid c)\<rparr>) (canvas_add itext True st)))"

text \<open>The three handlers of the \<open>rect\<close> and \<open>circle\<close> tools.\<close>

definition shape_mouse_down :: "toolType \<Rightarrow> real \<times> real \<Rightarrow> useCanvas \<Rightarrow> useCanvas" where
  "shape_mouse_down tool pointer st =
     (case canvas st of
        None \<Rightarrow> st
      | Some c \<Rightarrow>
          if isDrawingShape st then st
          else
            (let new_shape =
                   \<lparr>o_left = fst pointer, o_top = snd pointer,
                    o_shape = (if tool = Rect then FRect 0 0 else FEllipse 0 0),
                    o_fill = fillColor st, o_stroke = strokeColor st, o_strokeWidth = 2\<rparr>
             in canvas_add new_shape False
                  (st\<lparr>isDrawingShape := True, shapeStartX := fst pointer,
                      shapeStartY := snd pointer, activeShape := Some (next_oid c)\<rparr>)))"

definition shape_mouse_move :: "real \<times> real \<Rightarrow> useCanvas \<Rightarrow> useCanvas" where
  "shape_mouse_move pointer st =
     (case canvas st of
        None \<Rightarrow> st
      | Some c \<Rightarrow>
          if \<not> isDrawingShape st then st
          else
            (case activeShape st of
               None \<Rightarrow> st
             | Some i \<Rightarrow>
                 (let w = \<bar>fst pointer - shapeStartX st\<bar>;
                      h = \<bar>snd pointer - shapeStartY st\<bar>;
                      l = min (fst pointer) (shapeStartX st);
                      t = min (snd pointer) (shapeStartY st)
                  in object_set i
                       (\<lambda>ob. case o_shape (props ob) of
                          FRect _ _ \<Rightarrow>
                            ob\<lparr>props := (props ob)\<lparr>o_left := l, o_top := t, o_shape := FRect w h\<rparr>\<rparr>
                        | FEllipse _ _ \<Rightarrow>
                            ob\<lparr>props := (props ob)\<lparr>o_left := l, o_top := t,
                                                 o_shape := FEllipse (w / 2) (h / 2)\<rparr>\<rparr>
                        | _ \<Rightarrow> ob) st)))"

definition shape_mouse_up :: "useCanvas \<Rightarrow> useCanvas" where
  "shape_mouse_up st =
     (case canvas st of
        None \<Rightarrow> st
      | Some c \<Rightarrow>
          if \<not> isDrawingShape st then st
          else
            (let st1 = st\<lparr>isDrawingShape := False\<rparr>
             in case activeShape st1 of
                  None \<Rightarrow> st1
                | Some i \<Rightarrow>
                    saveHistory
                      ((map_canvas (\<lambda>c'. c'\<lparr>activeObject := Some i\<rparr>)
                          (object_set i (\<lambda>ob. ob\<lparr>selectable := True\<rparr>) st1))
                       \<lparr>activeShape := None\<rparr>)))"

text \<open>The canvas delivers a pointer event to the handlers that are registered.\<close>

definition mouse_down :: "real \<times> real \<Rightarrow> useCanvas \<Rightarrow> useCanvas" where
  "mouse_down pointer st =
     (case canvas st of
        None \<Rightarrow> st
      | Some c \<Rightarrow>
          (case listeners c of
             None \<Rightarrow> st
           | Some tool \<Rightarrow>
               if tool = Text then text_mouse_down pointer st
               else shape_mouse_down tool pointer st))"

definition mouse_move :: "real \<times> real \<Rightarrow> useCanvas \<Rightarrow> useCanvas" where
  "mouse_move pointer st =
     (case canvas st of
        None \<Rightarrow> st
      | Some c \<Rightarrow>
          (case listeners c of
             None \<Rightarrow> st
           | Some tool \<Rightarrow> if tool = Text then st else shape_mouse_move pointer st))"

definition mouse_up :: "useCanvas \<Rightarrow> useCanvas" where
  "mouse_up st =
     (case canvas st of
        None \<Rightarrow> st
      | Some c \<Rightarrow>
          (case listeners c of
             None \<Rightarrow> st
           | Some tool \<Rightarrow> if tool = Text then st else shape_mouse_up st))"


section \<open>Capture and export (App.vue)\<close>

text \<open>The state of the application component that capture and export use.\<close>

record app =
  canvasHolder :: useCanvas
  frames :: "json frame list"
  isExporting :: bool
  exportProgress :: int
  exportError :: "string option"
  complianceWarnings :: "string list"

definition app_init :: app where
  "app_init =
     \<lparr>canvasHolder = init, frames = [], isExporting = False, exportProgress = 0,
      exportError = None, complianceWarnings = []\<rparr>"

text \<open>How a call ends, as its caller sees it: every path of \<open>captureFrame\<close> ends by
  returning no value.\<close>

datatype completion = ReturnsUndefined | Throws string

text \<open>\<open>captureFrame\<close>; \<open>new_id\<close> is the identifier \<open>addFrame\<close> generates.\<close>

definition captureFrame :: "(canvas \<Rightarrow> string) \<Rightarrow> string \<Rightarrow> app \<Rightarrow> completion \<times> app" where
  "captureFrame toDataURL new_id a =
     (if length (frames a) \<ge> 10 then (ReturnsUndefined, a)
      else
        (let (url, st1) = exportPng toDataURL (canvasHolder a);
             json = getCanvasJSON st1;
             (fr, fs) = addFrame new_id url json 100 (frames a)
         in (ReturnsUndefined, a\<lparr>canvasHolder := st1, frames := fs\<rparr>)))"

text \<open>
  What \<open>exportEmoji\<close> does outside the component, in order: calls of \<open>exportPng\<close> and
  \<open>checkCompliance\<close>, the use of the GIF encoder, and the download handed to the
  browser. A download target is a data URL or the object URL of a blob of some size.
\<close>

datatype href = DataUrl string | BlobUrl int

datatype effect =
    CallExportPng
  | CallCheckCompliance
  | EncoderCreate
  | EncoderAddFrame string int
  | EncoderRender
  | Download string href

definition gif_size_warning :: "int \<Rightarrow> string" where
  "gif_size_warning bytes =
     ''GIF size '' @ toFixed 0 bytes 1024 @ ''KB exceeds WeChat 500KB limit.''"

text \<open>
  \<open>exportEmoji\<close>. The encoder is the parameter \<open>encode\<close>: from the frames added, in
  order, it yields the size of the blob, or the message of the error it rejects with.
  Each image is taken to load; progress callbacks are not modelled.
\<close>

definition exportEmoji ::
  "(canvas \<Rightarrow> string) \<Rightarrow> ((string \<times> int) list \<Rightarrow> string + int) \<Rightarrow> app \<Rightarrow> app \<times> effect list" where
  "exportEmoji toDataURL encode a0 =
     (let a = a0\<lparr>exportError := None, complianceWarnings := []\<rparr>
      in if length (frames a) = 0 then
           (let (url, st1) = exportPng toDataURL (canvasHolder a)
            in (a\<lparr>canvasHolder := st1\<rparr>, [CallExportPng, Download ''emoji.png'' (DataUrl url)]))
         else
           (let compliance = checkCompliance (frames a) None;
                a1 = (if length (warnings compliance) > 0
                      then a\<lparr>complianceWarnings := warnings compliance\<rparr> else a);
                a2 = a1\<lparr>isExporting := True, exportProgress := 0\<rparr>;
                tr = [CallCheckCompliance, EncoderCreate]
                     @ map (\<lambda>f. EncoderAddFrame (dataUrl f) (delay f)) (frames a2)
                     @ [EncoderRender]
            in case encode (map (\<lambda>f. (dataUrl f, delay f)) (frames a2)) of
                 Inl msg \<Rightarrow> (a2\<lparr>exportError := Some msg, isExporting := False\<rparr>, tr)
               | Inr blob_size \<Rightarrow>
                   (let a3 = (if blob_size > 500 * 1024
                              then a2\<lparr>complianceWarnings :=
                                        complianceWarnings a2 @ [gif_size_warning blob_size]\<rparr>
                              else a2)
                    in (a3\<lparr>isExporting := False\<rparr>,
                        tr @ [Download ''emoji.gif'' (BlobUrl blob_size)]))))"


section \<open>Runs of the editor\<close>

text \<open>The canvas after a snapshot is loaded: the objects of the snapshot, with new
  identities and selectable, and its background.\<close>

definition loaded :: "snapshot \<Rightarrow> canvas \<Rightarrow> canvas" where
  "loaded snap c =
     c\<lparr>objects := mk_objects (next_oid c) (s_objects snap),
       backgroundColor := s_background snap,
       activeObject := None,
       next_oid := next_oid c + length (s_objects snap)\<rparr>"

text \<open>A sequence of committed mutations, each captured by the handler of its event.\<close>

definition mutations :: "mutation list \<Rightarrow> useCanvas \<Rightarrow> useCanvas" where
  "mutations ms st = foldl (\<lambda>s m. mutate m s) st ms"

text \<open>What a user can do to the editor, and a run of such actions.\<close>

datatype action =
    Mutate mutation
  | Undo
  | Redo
  | SetTool toolType
  | MouseDown "real \<times> real"
  | MouseMove "real \<times> real"
  | MouseUp

fun step :: "action \<Rightarrow> useCanvas \<Rightarrow> useCanvas" where
  "step (Mutate m) st = mutate m st"
| "step Undo st = undo st"
| "step Redo st = redo st"
| "step (SetTool t) st = setTool t st"
| "step (MouseDown p) st = mouse_down p st"
| "step (MouseMove p) st = mouse_move p st"
| "step MouseUp st = mouse_up st"

definition run :: "action list \<Rightarrow> useCanvas \<Rightarrow> useCanvas" where
  "run acts st = foldl (\<lambda>s a. step a s) st acts"

text \<open>
  The state of the history after a capture: a canvas is set, the restoring flag is not
  set, the cursor is an index of the sequence, which holds at most 50 entries, and the
  entry at the cursor is the serialised canvas.
\<close>

definition hist_ok :: "useCanvas \<Rightarrow> bool" where
  "hist_ok st =
     (\<not> isRestoringHistory st \<and> 0 \<le> historyIndex st
      \<and> historyIndex st < int (length (history st)) \<and> length (history st) \<le> 50
      \<and> (case canvas st of
            None \<Rightarrow> False
          | Some c \<Rightarrow> js_nth (history st) (historyIndex st) = Some (toJSON c)))"

text \<open>Sample data: an object, two mutations that add it and remove everything, and a
  timeline of ten frames.\<close>

definition dot :: sobject where
  "dot = \<lparr>o_left = 1, o_top = 2, o_shape = FPath ''M 0 0'', o_fill = [],
          o_stroke = ''#000000'', o_strokeWidth = 6\<rparr>"

definition add_dot :: mutation where
  "add_dot = (ObjectAdded, \<lambda>os. os @ [\<lparr>oid = length os, selectable = True, props = dot\<rparr>])"

definition remove_all :: mutation where
  "remove_all = (ObjectRemoved, \<lambda>os. [])"

definition sample_frame :: "nat \<Rightarrow> int \<Rightarrow> json frame" where
  "sample_frame n d =
     \<lparr>fid = ''frame_'' @ string_of_nat n, dataUrl = ''data:image/png'',
      fabricJson = EmptyObject, delay = d\<rparr>"

definition sample_frames :: "nat \<Rightarrow> int \<Rightarrow> json frame list" where
  "sample_frames n d = map (\<lambda>k. sample_frame k d) [0..<n]"

text \<open>Sample states of the application: the canvas is ready and the timeline is empty,
  or holds ten frames.\<close>

definition ready_app :: app where
  "ready_app = app_init\<lparr>canvasHolder := setCanvas blank_canvas init\<rparr>"

definition full_app :: app where
  "full_app = ready_app\<lparr>frames := sample_frames 10 100\<rparr>"

text \<open>The effects that use the GIF encoder or the compliance checker.\<close>

definition is_encoder_or_checker :: "effect \<Rightarrow> bool" where
  "is_encoder_or_checker e =
     (case e of CallCheckCompliance \<Rightarrow> True | EncoderCreate \<Rightarrow> True
      | EncoderAddFrame _ _ \<Rightarrow> True | EncoderRender \<Rightarrow> True | _ \<Rightarrow> False)"


text \<open>The part of \<open>hist_ok\<close> that does not depend on the content of the canvas.\<close>

definition cursor_ok :: "useCanvas \<Rightarrow> bool" where
  "cursor_ok st =
     (canvas st \<noteq> None \<and> \<not> isRestoringHistory st \<and> 0 \<le> historyIndex st
      \<and> historyIndex st < int (length (history st)) \<and> length (history st) \<le> 50)"

text \<open>Sample states: the editor after one edit, and a history at its capacity, as
  it is after 49 captured modifications that leave the content of the canvas as it was.
  \<open>fifty_edits\<close> are 50 mutations that each add an object.\<close>

definition one_edit :: useCanvas where
  "one_edit = mutate add_dot (setCanvas blank_canvas init)"

definition full_history :: useCanvas where
  "full_history =
     (setCanvas blank_canvas init)\<lparr>history := replicate 50 (toJSON blank_canvas), historyIndex := 49\<rparr>"



text \<open>Sample states: a rectangle being dragged from (10, 20) to (30, 40), and the
  editor after the select tool is chosen in the middle of that drag.\<close>

definition partial_rect :: sobject where
  "partial_rect = \<lparr>o_left = 10, o_top = 20, o_shape = FRect 20 20, o_fill = ''#ff6b6b'',
         o_stroke = ''#333333'', o_strokeWidth = 2\<rparr>"

definition dragging :: useCanvas where
  "dragging = mouse_move (30, 40) (mouse_down (10, 20) (setTool Rect (setCanvas blank_canvas init)))"

definition interrupted_drag :: useCanvas where
  "interrupted_drag = setTool Select dragging"

text \<open>Sample states: the editor after two objects were added, and after one rectangle
  was drawn from (10, 20) to (30, 40).\<close>

definition two_adds :: useCanvas where
  "two_adds = mutations [add_dot, add_dot] (setCanvas blank_canvas init)"





section \<open>Properties\<close>


subsection \<open>The timeline\<close>

lemma findIndex_None: "(findIndex p xs = None) = (\<forall>x\<in>set xs. \<not> p x)"
  by (induction xs) auto

lemma updateDelay_unknown: "i \<notin> fid ` set fs \<Longrightarrow> updateDelay i d fs = fs"
  by (induction fs) auto

lemma deleteFrame_unknown: "i \<notin> fid ` set fs \<Longrightarrow> deleteFrame i fs = fs"
  unfolding deleteFrame_def by (induction fs) auto

lemma duplicateFrame_unknown: "i \<notin> fid ` set fs \<Longrightarrow> duplicateFrame n i fs = fs"
proof -
  assume "i \<notin> fid ` set fs"
  then have "findIndex (\<lambda>f. fid f = i) fs = None"
    by (auto simp: findIndex_None)
  then show ?thesis by (simp add: duplicateFrame_def)
qed

text \<open>
  Claim C10. With an identifier that no frame of the timeline has, \<open>deleteFrame\<close>,
  \<open>duplicateFrame\<close> and \<open>updateDelay\<close> each leave the frame list as it is.
\<close>

theorem unknown_id_is_noop:
  "i \<notin> fid ` set fs \<Longrightarrow>
     deleteFrame i fs = fs \<and> duplicateFrame n i fs = fs \<and> updateDelay i d fs = fs"
  by (simp add: deleteFrame_unknown duplicateFrame_unknown updateDelay_unknown)

theorem unknown_id_is_noop_witness:
  "''zz'' \<notin> fid ` set (sample_frames 2 100) \<and>
   deleteFrame ''zz'' (sample_frames 2 100) = sample_frames 2 100 \<and>
   duplicateFrame ''new'' ''zz'' (sample_frames 2 100) = sample_frames 2 100 \<and>
   updateDelay ''zz'' 250 (sample_frames 2 100) = sample_frames 2 100"
proof -
  have h: "''zz'' \<notin> fid ` set (sample_frames 2 100)"
    by (simp add: sample_frames_def sample_frame_def upt_rec)
  show ?thesis using h unknown_id_is_noop [OF h, of "''new''" 250] by simp
qed

lemma reorder_in_bounds:
  assumes "0 \<le> i" "i < int (length fs)" "0 \<le> j" "j < int (length fs)" "i \<noteq> j"
  shows "reorderFrames i j fs =
           map Some (take (nat j) (take (nat i) fs @ drop (Suc (nat i)) fs)
                     @ fs ! nat i # drop (nat j) (take (nat i) fs @ drop (Suc (nat i)) fs))"
proof -
  have ki: "js_index i (length fs) = nat i"
    using assms by (simp add: js_index_def)
  have len: "length (take (nat i) fs @ drop (Suc (nat i)) fs) = length fs - 1"
    using assms by auto
  have kj: "js_index j (length fs - 1) = nat j"
    using assms by (auto simp: js_index_def)
  show ?thesis
    using assms ki kj len
    by (simp add: reorderFrames_def splice_remove1_def splice_insert_def Let_def
        take_map drop_map del: length_append length_take length_drop)
qed

lemma mset_move:
  assumes "k < length xs"
  shows "mset (take m (take k xs @ drop (Suc k) xs)
               @ xs ! k # drop m (take k xs @ drop (Suc k) xs)) = mset xs"
proof -
  let ?r = "take k xs @ drop (Suc k) xs"
  have "mset (take m ?r @ xs ! k # drop m ?r) = mset (take m ?r @ drop m ?r) + {#xs ! k#}"
    by simp
  also have "\<dots> = mset ?r + {#xs ! k#}"
    by (simp only: append_take_drop_id)
  also have "\<dots> = mset (take k xs @ xs ! k # drop (Suc k) xs)"
    by simp
  also have "\<dots> = mset xs"
    using assms by (simp only: id_take_nth_drop [symmetric])
  finally show ?thesis .
qed

text \<open>
  Claim C8. For indices within the timeline, \<open>reorderFrames\<close> yields a timeline of
  frames (no empty slot) with the same multiset of frames, and so of identifiers: the
  frame at \<open>fromIndex\<close> is taken out and put back at \<open>toIndex\<close>, the others keeping
  their order. Frames \<open>[A, B, C, D]\<close> reordered from 0 to 2 become \<open>[B, C, A, D]\<close>.
  With equal indices the timeline is unchanged.
\<close>

theorem reorderFrames_permutes:
  "0 \<le> i \<Longrightarrow> i < int (length fs) \<Longrightarrow> 0 \<le> j \<Longrightarrow> j < int (length fs) \<Longrightarrow>
     (\<exists>gs. reorderFrames i j fs = map Some gs
          \<and> mset (map fid gs) = mset (map fid fs) \<and> mset gs = mset fs
          \<and> (i \<noteq> j \<longrightarrow>
               gs = take (nat j) (take (nat i) fs @ drop (Suc (nat i)) fs)
                    @ fs ! nat i # drop (nat j) (take (nat i) fs @ drop (Suc (nat i)) fs)))
     \<and> reorderFrames 0 2 [a, b, c, d] = map Some [b, c, a, d]
     \<and> reorderFrames k k hs = map Some hs"
proof (intro conjI)
  assume b: "0 \<le> i" "i < int (length fs)" "0 \<le> j" "j < int (length fs)"
  show "\<exists>gs. reorderFrames i j fs = map Some gs
          \<and> mset (map fid gs) = mset (map fid fs) \<and> mset gs = mset fs
          \<and> (i \<noteq> j \<longrightarrow>
               gs = take (nat j) (take (nat i) fs @ drop (Suc (nat i)) fs)
                    @ fs ! nat i # drop (nat j) (take (nat i) fs @ drop (Suc (nat i)) fs))"
  proof (cases "i = j")
    case True
    then show ?thesis by (intro exI [of _ fs]) (simp add: reorderFrames_def)
  next
    case False
    let ?gs = "take (nat j) (take (nat i) fs @ drop (Suc (nat i)) fs)
                @ fs ! nat i # drop (nat j) (take (nat i) fs @ drop (Suc (nat i)) fs)"
    have m: "mset ?gs = mset fs"
      using b by (intro mset_move) simp
    have "mset (map fid ?gs) = image_mset fid (mset ?gs)" by (simp only: mset_map)
    then have m2: "mset (map fid ?gs) = mset (map fid fs)" by (simp only: m mset_map)
    show ?thesis
      using reorder_in_bounds [OF b False] m m2 by (intro exI [of _ ?gs]) simp
  qed
next
  show "reorderFrames 0 2 [a, b, c, d] = map Some [b, c, a, d]"
    by (simp add: reorderFrames_def splice_remove1_def splice_insert_def js_index_def)
next
  show "reorderFrames k k hs = map Some hs"
    by (simp add: reorderFrames_def)
qed

theorem reorderFrames_permutes_witness:
  "(0::int) \<le> 1 \<and> 1 < int (length (sample_frames 3 100)) \<and> (0::int) \<le> 2
   \<and> 2 < int (length (sample_frames 3 100))
   \<and> (\<exists>gs. reorderFrames 1 2 (sample_frames 3 100) = map Some gs
          \<and> mset (map fid gs) = mset (map fid (sample_frames 3 100)))
   \<and> reorderFrames 1 2 (sample_frames 3 100)
       = map Some [sample_frame 0 100, sample_frame 2 100, sample_frame 1 100]"
proof -
  have l: "length (sample_frames 3 100) = 3" by (simp add: sample_frames_def)
  have h1: "(0::int) \<le> 1" and h2: "1 < int (length (sample_frames 3 100))"
    and h3: "(0::int) \<le> 2" and h4: "2 < int (length (sample_frames 3 100))"
    by (simp_all add: l)
  have e: "reorderFrames 1 2 (sample_frames 3 100)
       = map Some [sample_frame 0 100, sample_frame 2 100, sample_frame 1 100]"
    by (simp add: sample_frames_def upt_rec reorderFrames_def splice_remove1_def
        splice_insert_def js_index_def numeral_2_eq_2)
  from reorderFrames_permutes [OF h1 h2 h3 h4]
  have "\<exists>gs. reorderFrames 1 2 (sample_frames 3 100) = map Some gs
          \<and> mset (map fid gs) = mset (map fid (sample_frames 3 100))"
    by blast
  with h1 h2 h3 h4 e show ?thesis by blast
qed


subsection \<open>The compliance checker\<close>

lemma totalDurationMs_sum: "totalDurationMs fs = sum_list (map delay fs)"
proof -
  have "foldl (\<lambda>sum f. sum + delay f) a fs = a + sum_list (map delay fs)" for a
    by (induction fs arbitrary: a) auto
  then show ?thesis by (simp add: totalDurationMs_def)
qed

lemma total_const: "\<forall>f\<in>set fs. delay f = d \<Longrightarrow> totalDurationMs fs = int (length fs) * d"
  unfolding totalDurationMs_sum by (induction fs) (auto simp: algebra_simps)

lemma warnings_parts:
  "warnings (checkCompliance fs sz) =
     (if length fs > 10 then [frames_warning (length fs)] else [])
     @ (if totalDurationMs fs > 30000 then [duration_warning (totalDurationMs fs)] else [])
     @ (case sz of None \<Rightarrow> [] | Some b \<Rightarrow> if b > 512000 then [size_warning b] else [])"
  by (auto simp: checkCompliance_def Let_def split: option.splits)

lemma valid_iff_no_warning:
  "valid (checkCompliance fs sz) = (warnings (checkCompliance fs sz) = [])"
  by (simp add: checkCompliance_def Let_def)

lemma frames_warning_12:
  "frames_warning 12 = ''Too many frames (12/10). WeChat allows max 10 frames.''"
  by code_simp

lemma duration_warning_35:
  "duration_warning 35000 = ''Total animation duration 35.0s exceeds 30s limit.''"
  by code_simp

lemma size_warning_600:
  "size_warning (600 * 1024) = ''Estimated file size 600KB exceeds WeChat's 500KB limit.''"
  by code_simp

text \<open>
  Claim C6. \<open>checkCompliance\<close> reports \<open>valid\<close> exactly when it gives no warning.
  The warnings are, in this order and each on its own condition: one for more than
  10 frames, one for a sum of delays above 30000 ms, one for a known size above
  512000 bytes. Twelve frames of 100 ms (\<open>xs\<close>) give the frame-count warning; five
  frames of 7000 ms (\<open>ys\<close>) give the duration warning, which says \<open>35.0s\<close>; a size of
  600 KiB gives the size warning, which says \<open>600KB\<close>; three frames of 50 ms (\<open>ws\<close>)
  with a size within the limit are valid with no warning.
\<close>

theorem checkCompliance_rules:
  "(valid (checkCompliance fs sz) \<longleftrightarrow> warnings (checkCompliance fs sz) = [])
   \<and> warnings (checkCompliance fs sz) =
       (if length fs > 10 then [frames_warning (length fs)] else [])
       @ (if sum_list (map delay fs) > 30000
          then [duration_warning (sum_list (map delay fs))] else [])
       @ (case sz of None \<Rightarrow> [] | Some b \<Rightarrow> if b > 512000 then [size_warning b] else [])
   \<and> (length xs = 12 \<and> (\<forall>f\<in>set xs. delay f = 100) \<longrightarrow>
        warnings (checkCompliance xs None)
          = [''Too many frames (12/10). WeChat allows max 10 frames.''])
   \<and> (length ys = 5 \<and> (\<forall>f\<in>set ys. delay f = 7000) \<longrightarrow>
        warnings (checkCompliance ys None)
          = [''Total animation duration 35.0s exceeds 30s limit.''])
   \<and> ''Estimated file size 600KB exceeds WeChat's 500KB limit.''
        \<in> set (warnings (checkCompliance zs (Some (600 * 1024))))
   \<and> (length ws = 3 \<and> (\<forall>f\<in>set ws. delay f = 50) \<and> b \<le> 512000 \<longrightarrow>
        checkCompliance ws (Some b) = \<lparr>valid = True, warnings = []\<rparr>)"
proof (intro conjI impI)
  show "valid (checkCompliance fs sz) \<longleftrightarrow> warnings (checkCompliance fs sz) = []"
    by (rule valid_iff_no_warning)
  show "warnings (checkCompliance fs sz) =
       (if length fs > 10 then [frames_warning (length fs)] else [])
       @ (if sum_list (map delay fs) > 30000
          then [duration_warning (sum_list (map delay fs))] else [])
       @ (case sz of None \<Rightarrow> [] | Some b \<Rightarrow> if b > 512000 then [size_warning b] else [])"
    using warnings_parts [of fs sz] by (simp only: totalDurationMs_sum)
  show "warnings (checkCompliance xs None)
          = [''Too many frames (12/10). WeChat allows max 10 frames.'']"
    if "length xs = 12 \<and> (\<forall>f\<in>set xs. delay f = 100)"
    using that total_const [of xs 100] by (simp add: warnings_parts frames_warning_12)
  show "warnings (checkCompliance ys None)
          = [''Total animation duration 35.0s exceeds 30s limit.'']"
    if "length ys = 5 \<and> (\<forall>f\<in>set ys. delay f = 7000)"
    using that total_const [of ys 7000] by (simp add: warnings_parts duration_warning_35)
  show "''Estimated file size 600KB exceeds WeChat's 500KB limit.''
        \<in> set (warnings (checkCompliance zs (Some (600 * 1024))))"
    using size_warning_600 by (simp add: warnings_parts)
  show "checkCompliance ws (Some b) = \<lparr>valid = True, warnings = []\<rparr>"
    if "length ws = 3 \<and> (\<forall>f\<in>set ws. delay f = 50) \<and> b \<le> 512000"
  proof -
    have "warnings (checkCompliance ws (Some b)) = []"
      using that total_const [of ws 50] by (simp add: warnings_parts)
    moreover from this have "valid (checkCompliance ws (Some b))"
      by (simp add: valid_iff_no_warning)
    ultimately show ?thesis by (cases "checkCompliance ws (Some b)") simp
  qed
qed

lemma sample_delay: "\<forall>f\<in>set (sample_frames n d). delay f = d"
  by (simp add: sample_frames_def sample_frame_def)

lemma sample_length: "length (sample_frames n d) = n"
  by (simp add: sample_frames_def)

theorem checkCompliance_rules_witness:
  "length (sample_frames 12 100) = 12 \<and> list_all (\<lambda>f. delay f = 100) (sample_frames 12 100)
   \<and> warnings (checkCompliance (sample_frames 12 100) None)
       = [''Too many frames (12/10). WeChat allows max 10 frames.'']
   \<and> length (sample_frames 5 7000) = 5 \<and> list_all (\<lambda>f. delay f = 7000) (sample_frames 5 7000)
   \<and> warnings (checkCompliance (sample_frames 5 7000) None)
       = [''Total animation duration 35.0s exceeds 30s limit.'']
   \<and> length (sample_frames 3 50) = 3 \<and> list_all (\<lambda>f. delay f = 50) (sample_frames 3 50)
   \<and> (1024::int) \<le> 512000
   \<and> checkCompliance (sample_frames 3 50) (Some 1024) = \<lparr>valid = True, warnings = []\<rparr>"
proof -
  have h1: "length (sample_frames 12 100) = 12 \<and> (\<forall>f\<in>set (sample_frames 12 100). delay f = 100)"
    by (simp add: sample_delay sample_length)
  have h2: "length (sample_frames 5 7000) = 5 \<and> (\<forall>f\<in>set (sample_frames 5 7000). delay f = 7000)"
    by (simp add: sample_delay sample_length)
  have h3: "length (sample_frames 3 50) = 3 \<and> (\<forall>f\<in>set (sample_frames 3 50). delay f = 50)
        \<and> (1024::int) \<le> 512000"
    by (simp add: sample_delay sample_length)
  note r = checkCompliance_rules [where xs = "sample_frames 12 100"
      and ys = "sample_frames 5 7000" and ws = "sample_frames 3 50" and b = 1024]
  from r h1 have c1: "warnings (checkCompliance (sample_frames 12 100) None)
       = [''Too many frames (12/10). WeChat allows max 10 frames.'']" by blast
  from r h2 have c2: "warnings (checkCompliance (sample_frames 5 7000) None)
       = [''Total animation duration 35.0s exceeds 30s limit.'']" by blast
  from r h3 have c3: "checkCompliance (sample_frames 3 50) (Some 1024)
       = \<lparr>valid = True, warnings = []\<rparr>" by blast
  from h1 h2 h3 c1 c2 c3 show ?thesis unfolding list_all_iff by blast
qed


subsection \<open>Capture and export\<close>

text \<open>
  Claim C4, as stated, at a timeline of ten frames: the rejected capture ends like an
  accepted one, by returning no value, and leaves the whole state of the application
  as it was, the error and warning fields included. Nothing tells the caller that the
  capture was rejected.
\<close>

theorem captureFrame_signal_counterexample:
  "length (frames full_app) = 10
   \<and> captureFrame (\<lambda>c. ''data:image/png'') ''frame_10'' full_app = (ReturnsUndefined, full_app)
   \<and> fst (captureFrame (\<lambda>c. ''data:image/png'') ''frame_0'' ready_app) = ReturnsUndefined
   \<and> length (frames (snd (captureFrame (\<lambda>c. ''data:image/png'') ''frame_0'' ready_app))) = 1"
  by (simp add: full_app_def ready_app_def sample_frames_def captureFrame_def app_init_def
      exportPng_def init_def getCanvasJSON_def addFrame_def Let_def setCanvas_def
      saveHistory_def blank_canvas_def)

text \<open>
  Claim C4, amended. A capture attempted when the timeline holds 10 frames is a silent
  no-op: the state is unchanged, so the timeline stays at exactly 10 frames, and the
  call returns no value, as every call of \<open>captureFrame\<close> does.
\<close>

theorem captureFrame_at_cap:
  "length (frames a) = 10 \<Longrightarrow>
     captureFrame toDataURL new_id a = (ReturnsUndefined, a)
     \<and> length (frames (snd (captureFrame toDataURL new_id a))) = 10
     \<and> fst (captureFrame toDataURL new_id' a') = ReturnsUndefined"
  by (simp add: captureFrame_def Let_def split: prod.splits)

theorem captureFrame_at_cap_witness:
  "length (frames full_app) = 10
   \<and> captureFrame (\<lambda>c. ''data:image/png'') ''frame_10'' full_app = (ReturnsUndefined, full_app)"
proof -
  have h: "length (frames full_app) = 10" by (simp add: full_app_def sample_frames_def)
  from captureFrame_at_cap [OF h] h show ?thesis by blast
qed

text \<open>
  Claim C5. Exporting an empty timeline calls \<open>exportPng\<close> and hands its result to the
  browser as \<open>emoji.png\<close>, and does nothing else: the encoder and the compliance
  checker are not used, whatever the encoder would do. With a canvas set, the image
  is the rendering of the live canvas, its selection discarded.
\<close>

theorem export_empty_timeline:
  "frames a = [] \<Longrightarrow>
     snd (exportEmoji toDataURL encode a)
       = [CallExportPng,
          Download ''emoji.png'' (DataUrl (fst (exportPng toDataURL (canvasHolder a))))]
     \<and> (\<forall>e\<in>set (snd (exportEmoji toDataURL encode a)). \<not> is_encoder_or_checker e)
     \<and> exportEmoji toDataURL encode a = exportEmoji toDataURL encode' a
     \<and> fst (exportEmoji toDataURL encode a)
         = a\<lparr>exportError := None, complianceWarnings := [],
              canvasHolder := snd (exportPng toDataURL (canvasHolder a))\<rparr>
     \<and> (\<forall>c. canvas (canvasHolder a) = Some c \<longrightarrow>
           fst (exportPng toDataURL (canvasHolder a)) = toDataURL (c\<lparr>activeObject := None\<rparr>))"
  by (auto simp: exportEmoji_def Let_def is_encoder_or_checker_def exportPng_def
      split: prod.splits option.splits)


theorem export_empty_timeline_witness:
  "frames ready_app = []
   \<and> snd (exportEmoji (\<lambda>c. ''data:image/png'') (\<lambda>fs. Inr 0) ready_app)
       = [CallExportPng, Download ''emoji.png'' (DataUrl ''data:image/png'')]"
proof -
  have h: "frames ready_app = []" by (simp add: ready_app_def app_init_def)
  have c: "canvas (canvasHolder ready_app) = Some blank_canvas"
    by (simp add: ready_app_def app_init_def setCanvas_def saveHistory_def init_def Let_def)
  have "fst (exportPng (\<lambda>c. ''data:image/png'') (canvasHolder ready_app)) = ''data:image/png''"
    using c by (simp add: exportPng_def Let_def)
  with export_empty_timeline [OF h, of "\<lambda>c. ''data:image/png''" "\<lambda>fs. Inr 0"] h
  show ?thesis by simp
qed



subsection \<open>Restoring a snapshot\<close>

lemma saveHistory_restoring: "isRestoringHistory st \<Longrightarrow> saveHistory st = st"
  by (simp add: saveHistory_def split: option.splits)

lemma fire_restoring: "isRestoringHistory st \<Longrightarrow> fire ev st = st"
  by (cases ev) (simp_all add: fire_def saveHistory_restoring)



lemma canvas_saveHistory: "canvas (saveHistory st) = canvas st"
  by (simp add: saveHistory_def Let_def split: option.splits)

lemma canvas_fire: "canvas (fire ev st) = canvas st"
  by (cases ev) (simp_all add: fire_def canvas_saveHistory)



lemma canvas_fire_funpow: "canvas ((fire ev ^^ n) st) = canvas st"
  by (induction n) (simp_all add: canvas_fire)

lemma canvas_remove_each:
  "canvas (remove_each n st) = map_option (\<lambda>c. c\<lparr>objects := drop n (objects c)\<rparr>) (canvas st)"
proof (induction n arbitrary: st)
  case 0
  show ?case by (cases "canvas st") simp_all
next
  case (Suc n)
  show ?case
    by (cases "canvas st") (simp_all add: Suc canvas_fire map_canvas_def drop_Suc)
qed

lemma canvas_canvas_clear:
  "canvas st = Some c \<Longrightarrow> canvas (canvas_clear st) = Some (c\<lparr>objects := [], activeObject := None\<rparr>)"
  by (simp add: canvas_clear_def canvas_remove_each map_canvas_def)

lemma foldl_restored:
  "foldl (\<lambda>s p. restored s) st ps = (if ps = [] then st else restored st)"
  by (induction ps arbitrary: st) (auto simp: restored_def)

lemma canvas_loadFromJSON:
  assumes "canvas st = Some c"
  shows "canvas (loadFromJSON snap restored st) = Some (loaded snap c)"
proof -
  let ?st1 = "foldl (\<lambda>s p. restored s) st (s_objects snap)"
  have 1: "canvas ?st1 = Some c"
    unfolding foldl_restored using assms by (simp add: restored_def)
  have 2: "canvas (canvas_clear ?st1) = Some (c\<lparr>objects := [], activeObject := None\<rparr>)"
    using 1 by (rule canvas_canvas_clear)
  show ?thesis
    unfolding loadFromJSON_def add_all_def
    using 2 by (simp add: map_canvas_def canvas_fire_funpow push_objects_def loaded_def)
qed

lemma props_mk_objects: "map props (mk_objects n ps) = ps"
  by (induction ps arbitrary: n) auto

lemma toJSON_loaded: "toJSON (loaded snap c) = snap"
  by (simp add: toJSON_def loaded_def props_mk_objects)



lemma redo_scene:
  assumes "canvas st = Some c" "- 1 \<le> historyIndex st"
    "historyIndex st < int (length (history st)) - 1"
  shows "getCanvasJSON (redo st) = CanvasJSON (history st ! nat (historyIndex st + 1))"
proof -
  let ?st1 = "st\<lparr>historyIndex := historyIndex st + 1, isRestoringHistory := True\<rparr>"
  have n: "js_nth (history ?st1) (historyIndex ?st1) = Some (history st ! nat (historyIndex st + 1))"
    using assms by (simp add: js_nth_def)
  have u: "redo st = loadFromJSON (history st ! nat (historyIndex st + 1)) restored ?st1"
    using assms n by (simp add: redo_def Let_def)
  have "canvas ?st1 = Some c" using assms by simp
  from canvas_loadFromJSON [OF this]
  show ?thesis unfolding u by (simp add: getCanvasJSON_def toJSON_loaded)
qed

lemma history_map_canvas [simp]: "history (map_canvas f st) = history st"
  by (simp add: map_canvas_def)

lemma saveHistory_length: "length (history st) \<le> 50 \<Longrightarrow> length (history (saveHistory st)) \<le> 50"
  by (auto simp: saveHistory_def Let_def js_slice0_def split: option.splits)

lemma fire_length: "length (history st) \<le> 50 \<Longrightarrow> length (history (fire ev st)) \<le> 50"
  by (cases ev) (simp_all add: fire_def saveHistory_length)

lemma fire_funpow_length:
  "length (history st) \<le> 50 \<Longrightarrow> length (history ((fire ev ^^ n) st)) \<le> 50"
  by (induction n) (simp_all add: fire_length)

lemma remove_each_length:
  "length (history st) \<le> 50 \<Longrightarrow> length (history (remove_each n st)) \<le> 50"
  by (induction n arbitrary: st) (simp_all add: fire_length)

lemma canvas_clear_length:
  "length (history st) \<le> 50 \<Longrightarrow> length (history (canvas_clear st)) \<le> 50"
  by (simp add: canvas_clear_def remove_each_length split: option.splits)

lemma loadFromJSON_length:
  assumes "length (history st) \<le> 50"
  shows "length (history (loadFromJSON snap restored st)) \<le> 50"
proof -
  have "length (history (foldl (\<lambda>s p. restored s) st (s_objects snap))) \<le> 50"
    unfolding foldl_restored using assms by (simp add: restored_def)
  then have "length (history (canvas_clear (foldl (\<lambda>s p. restored s) st (s_objects snap)))) \<le> 50"
    by (rule canvas_clear_length)
  then show ?thesis
    unfolding loadFromJSON_def add_all_def by (simp add: fire_funpow_length)
qed

lemma undo_length: "length (history st) \<le> 50 \<Longrightarrow> length (history (undo st)) \<le> 50"
  by (auto simp: undo_def Let_def intro!: loadFromJSON_length split: option.splits)

lemma redo_length: "length (history st) \<le> 50 \<Longrightarrow> length (history (redo st)) \<le> 50"
  by (auto simp: redo_def Let_def intro!: loadFromJSON_length split: option.splits)

subsection \<open>Capturing\<close>

lemma hist_ok_cursor_ok: "hist_ok st \<Longrightarrow> cursor_ok st"
  by (auto simp: hist_ok_def cursor_ok_def split: option.splits)

lemma saveHistory_tail_index:
  "canvas st \<noteq> None \<Longrightarrow> \<not> isRestoringHistory st \<Longrightarrow>
     historyIndex (saveHistory st) = int (length (history (saveHistory st))) - 1"
  by (auto simp: saveHistory_def Let_def)

lemma saveHistory_capture:
  assumes "canvas st = Some c" "\<not> isRestoringHistory st" "- 1 \<le> historyIndex st"
    "historyIndex st < int (length (history st))"
  shows "saveHistory st =
      (let h2 = take (nat (historyIndex st + 1)) (history st) @ [toJSON c]
       in if length h2 > 50 then st\<lparr>history := tl h2, historyIndex := int (length h2) - 2\<rparr>
          else st\<lparr>history := h2, historyIndex := int (length h2) - 1\<rparr>)"
proof (cases "historyIndex st < int (length (history st)) - 1")
  case True
  then have "js_slice0 (historyIndex st + 1) (history st) = take (nat (historyIndex st + 1)) (history st)"
    using assms by (auto simp: js_slice0_def js_index_def min_def)
  then show ?thesis using assms True by (simp add: saveHistory_def Let_def)
next
  case False
  then have "nat (historyIndex st + 1) = length (history st)" using assms by linarith
  then have "take (nat (historyIndex st + 1)) (history st) = history st" by simp
  then show ?thesis using assms False by (simp add: saveHistory_def Let_def)
qed

lemma saveHistory_prunes:
  assumes "cursor_ok st" "historyIndex st < int (length (history st)) - 1"
  shows "history (saveHistory st) = take (nat (historyIndex st + 1)) (history st) @ [toJSON (the (canvas st))]"
    and "historyIndex (saveHistory st) = historyIndex st + 1"
proof -
  obtain c where c: "canvas st = Some c" using assms by (auto simp: cursor_ok_def)
  have l: "length (take (nat (historyIndex st + 1)) (history st) @ [toJSON c]) = nat (historyIndex st + 2)"
    using assms by (auto simp: cursor_ok_def)
  have le: "nat (historyIndex st + 2) \<le> 50" using assms by (auto simp: cursor_ok_def)
  have s: "saveHistory st = st\<lparr>history := take (nat (historyIndex st + 1)) (history st) @ [toJSON c],
       historyIndex := int (nat (historyIndex st + 2)) - 1\<rparr>"
    using saveHistory_capture [OF c] assms le l
    by (simp add: cursor_ok_def Let_def del: length_append length_take)
  show "history (saveHistory st) = take (nat (historyIndex st + 1)) (history st) @ [toJSON (the (canvas st))]"
    using s c by simp
  show "historyIndex (saveHistory st) = historyIndex st + 1"
    using s assms by (simp add: cursor_ok_def)
qed

lemma saveHistory_evicts:
  assumes "cursor_ok st" "length (history st) = 50" "historyIndex st = 49"
  shows "saveHistory st = st\<lparr>history := tl (history st) @ [toJSON (the (canvas st))], historyIndex := 49\<rparr>"
proof -
  obtain c where c: "canvas st = Some c" using assms by (auto simp: cursor_ok_def)
  have ne: "history st \<noteq> []" using assms by auto
  show ?thesis
    using saveHistory_capture [OF c] assms c ne by (simp add: cursor_ok_def Let_def)
qed

lemma mutate_tail_index:
  assumes "canvas st \<noteq> None" "\<not> isRestoringHistory st"
  shows "\<not> canRedo (mutate m st)"
proof -
  let ?st1 = "map_canvas (\<lambda>c. c\<lparr>objects := snd m (objects c)\<rparr>) st"
  have a: "canvas ?st1 \<noteq> None" "\<not> isRestoringHistory ?st1"
    using assms by (auto simp: map_canvas_def)
  have "mutate m st = saveHistory ?st1"
    using a by (cases "fst m") (simp_all add: mutate_def fire_def)
  then show ?thesis using saveHistory_tail_index [OF a] by (simp add: canRedo_def)
qed

lemma mutate_length: "length (history st) \<le> 50 \<Longrightarrow> length (history (mutate m st)) \<le> 50"
  by (simp add: mutate_def fire_length)

lemma canvas_add_length: "length (history st) \<le> 50 \<Longrightarrow> length (history (canvas_add p b st)) \<le> 50"
  by (simp add: canvas_add_def fire_length)

lemma applyTool_history: "history (applyTool t st) = history st"
  by (cases t) (simp_all add: applyTool_def removeShapeListeners_def Let_def split: option.splits)

lemma setTool_history: "history (setTool t st) = history st"
  by (simp add: setTool_def applyTool_history)

lemma mouse_down_length: "length (history st) \<le> 50 \<Longrightarrow> length (history (mouse_down p st)) \<le> 50"
  by (auto simp: mouse_down_def text_mouse_down_def shape_mouse_down_def Let_def
      intro!: canvas_add_length split: option.splits)

lemma mouse_move_history: "history (mouse_move p st) = history st"
  by (auto simp: mouse_move_def shape_mouse_move_def object_set_def Let_def split: option.splits)

lemma mouse_up_length: "length (history st) \<le> 50 \<Longrightarrow> length (history (mouse_up st)) \<le> 50"
  by (auto simp: mouse_up_def shape_mouse_up_def object_set_def Let_def
      intro!: saveHistory_length split: option.splits)

lemma step_length: "length (history st) \<le> 50 \<Longrightarrow> length (history (step a st)) \<le> 50"
  by (cases a) (simp_all add: mutate_length undo_length redo_length setTool_history
      mouse_down_length mouse_move_history mouse_up_length)

lemma run_snoc: "run (acts @ [a]) st = step a (run acts st)"
  by (simp add: run_def)

lemma run_length: "length (history st) \<le> 50 \<Longrightarrow> length (history (run acts st)) \<le> 50"
  by (induction acts rule: rev_induct) (simp_all add: run_snoc step_length, simp add: run_def)

lemma setCanvas_init:
  "setCanvas c init = init\<lparr>canvas := Some c, history := [toJSON c], historyIndex := 0\<rparr>"
  by (simp add: setCanvas_def saveHistory_def init_def Let_def)

text \<open>
  Claim C3. From the initial capture on, whatever the user does (mutations, undo,
  redo, tool changes, pointer events), the history holds at most 50 entries. A capture
  at the capacity, which is a capture with 50 entries and the cursor on the last one,
  drops the oldest entry and appends the new one: there are 50 entries again, the
  cursor is on the new entry and its index is the same as before the capture, so the
  same number of undo steps is available. A capture with the cursor below 49 drops
  nothing at the front.
\<close>

theorem history_bounded:
  "length (history (run acts (setCanvas c init))) \<le> 50
   \<and> (cursor_ok st \<and> length (history st) = 50 \<and> historyIndex st = 49 \<longrightarrow>
        history (saveHistory st) = tl (history st) @ [toJSON (the (canvas st))]
        \<and> length (history (saveHistory st)) = 50
        \<and> historyIndex (saveHistory st) = historyIndex st
        \<and> js_nth (history (saveHistory st)) (historyIndex (saveHistory st))
            = Some (toJSON (the (canvas st))))
   \<and> (cursor_ok st \<and> historyIndex st < 49 \<longrightarrow>
        take (nat (historyIndex st + 1)) (history (saveHistory st))
          = take (nat (historyIndex st + 1)) (history st))"
proof (intro conjI impI)
  show "length (history (run acts (setCanvas c init))) \<le> 50"
    by (rule run_length) (simp add: setCanvas_init)
next
  assume a: "cursor_ok st \<and> length (history st) = 50 \<and> historyIndex st = 49"
  then have e: "saveHistory st = st\<lparr>history := tl (history st) @ [toJSON (the (canvas st))], historyIndex := 49\<rparr>"
    by (intro saveHistory_evicts) simp_all
  show "history (saveHistory st) = tl (history st) @ [toJSON (the (canvas st))]"
    using e by simp
  show "length (history (saveHistory st)) = 50" using e a by simp
  show "historyIndex (saveHistory st) = historyIndex st" using e a by simp
  show "js_nth (history (saveHistory st)) (historyIndex (saveHistory st))
            = Some (toJSON (the (canvas st)))"
    using e a by (simp add: js_nth_def nth_append)
next
  assume a: "cursor_ok st \<and> historyIndex st < 49"
  then obtain c where c: "canvas st = Some c" by (auto simp: cursor_ok_def)
  have l: "length (take (nat (historyIndex st + 1)) (history st) @ [toJSON c]) \<le> 50"
    using a by (auto simp: cursor_ok_def)
  have "saveHistory st = st\<lparr>history := take (nat (historyIndex st + 1)) (history st) @ [toJSON c],
       historyIndex := int (length (take (nat (historyIndex st + 1)) (history st) @ [toJSON c])) - 1\<rparr>"
    using saveHistory_capture [OF c] a l
    by (simp add: cursor_ok_def Let_def del: length_append length_take)
  then show "take (nat (historyIndex st + 1)) (history (saveHistory st))
          = take (nat (historyIndex st + 1)) (history st)"
    using a by (auto simp: cursor_ok_def)
qed

lemma full_history_ok: "cursor_ok full_history \<and> length (history full_history) = 50 \<and> historyIndex full_history = 49"
  unfolding full_history_def setCanvas_init by (simp add: cursor_ok_def init_def)



subsection \<open>The history as a log of snapshots\<close>



lemma mutations_snoc: "mutations (ms @ [m]) st = mutate m (mutations ms st)"
  by (simp add: mutations_def)





lemma undo_at_zero: "historyIndex st \<le> 0 \<Longrightarrow> undo st = st"
  by (simp add: undo_def split: option.splits)




lemmas eval_history =
  mutations_def mutate_def fire_def saveHistory_def Let_def map_canvas_def
  init_def blank_canvas_def add_dot_def remove_all_def toJSON_def undo_def redo_def
  loadFromJSON_def restored_def canvas_clear_def add_all_def push_objects_def
  js_nth_def js_slice0_def js_index_def setCanvas_def getCanvasJSON_def


subsection \<open>What undo does to the history\<close>

text \<open>
  Claim C9 says that \<open>undo\<close> and \<open>redo\<close> leave the sequence of history entries as it
  is and only move the cursor by one. The code does not keep to it. The function that
  resets the restoring flag is passed to \<open>loadFromJSON\<close>, which runs it for each
  object of the snapshot before it clears and refills the canvas, so that the events
  of the restore are captured. After two objects were added the history holds
  snapshots with 0, 1 and 2 objects and the cursor is 2; one \<open>undo\<close> then leaves five
  entries, with 0, 1, 1, 0 and 1 objects, and the cursor on 4.
\<close>

theorem undo_rewrites_history:
  "map (length \<circ> s_objects) (history two_adds) = [0, 1, 2] \<and> historyIndex two_adds = 2
   \<and> map (length \<circ> s_objects) (history (undo two_adds)) = [0, 1, 1, 0, 1]
   \<and> historyIndex (undo two_adds) = 4
   \<and> history (undo two_adds) \<noteq> history two_adds"
  by (simp add: two_adds_def eval_history)

text \<open>
  Claim C2 says that a capture behind the tail drops the entries after the cursor
  (lemma \<open>saveHistory_prunes\<close>), and that after an \<open>undo\<close> and a mutation \<open>canRedo\<close>
  is false. The code does not keep to the second part. After one added object, \<open>undo\<close>
  restores the snapshot without objects: the function that resets the restoring flag
  is never run, the flag stays set, the capture of the next mutation is dropped, the
  entry after the cursor stays and \<open>canRedo\<close> is true.
\<close>

theorem undo_then_mutate_keeps_redo:
  "history one_edit = [\<lparr>s_objects = [], s_background = ''#ffffff''\<rparr>,
                       \<lparr>s_objects = [dot], s_background = ''#ffffff''\<rparr>]
   \<and> historyIndex (undo one_edit) = 0
   \<and> isRestoringHistory (undo one_edit)
   \<and> history (mutate add_dot (undo one_edit)) = history one_edit
   \<and> historyIndex (mutate add_dot (undo one_edit)) = 0
   \<and> canRedo (mutate add_dot (undo one_edit))"
  by (simp add: one_edit_def eval_history canRedo_def)


subsection \<open>Repeated undo\<close>











lemma canvas_mutate:
  "canvas (mutate m st) = map_option (\<lambda>c. c\<lparr>objects := snd m (objects c)\<rparr>) (canvas st)"
  by (simp add: mutate_def canvas_fire map_canvas_def)

lemma dots:
  "map_option (\<lambda>c. map props (objects c))
     (canvas (mutations (replicate k add_dot) (setCanvas blank_canvas init)))
   = Some (replicate k dot)"
proof (induction k)
  case 0
  show ?case unfolding setCanvas_init by (simp add: mutations_def blank_canvas_def)
next
  case (Suc k)
  have r: "replicate (Suc k) add_dot = replicate k add_dot @ [add_dot]"
    by (simp add: replicate_append_same)
  show ?case
    unfolding r mutations_snoc canvas_mutate using Suc
    by (auto simp: add_dot_def replicate_append_same)
qed





subsection \<open>The round trip of undo and redo\<close>


lemma dragging_eq:
  "dragging =
     init\<lparr>activeTool := Rect,
          canvas := Some (blank_canvas\<lparr>objects := [\<lparr>oid = 0, selectable = False, props = partial_rect\<rparr>],
                                       selection := False, defaultCursor := ''crosshair'',
                                       listeners := Some Rect, next_oid := 1\<rparr>),
          history := [toJSON blank_canvas,
                      \<lparr>s_objects = [partial_rect\<lparr>o_shape := FRect 0 0\<rparr>], s_background = ''#ffffff''\<rparr>],
          historyIndex := 1, shapeStartX := 10, shapeStartY := 20,
          activeShape := Some 0, isDrawingShape := True\<rparr>"
  unfolding dragging_def setCanvas_init
  by (simp add: setTool_def applyTool_def removeShapeListeners_def map_canvas_def
      set_all_selectable_def mouse_down_def shape_mouse_down_def canvas_add_def fire_def
      saveHistory_def Let_def mouse_move_def shape_mouse_move_def object_set_def
      init_def blank_canvas_def toJSON_def partial_rect_def)

lemma interrupted_drag_eq:
  "interrupted_drag =
     init\<lparr>activeTool := Select,
          canvas := Some (blank_canvas\<lparr>objects := [\<lparr>oid = 0, selectable = True, props = partial_rect\<rparr>],
                                       next_oid := 1\<rparr>),
          history := [toJSON blank_canvas,
                      \<lparr>s_objects = [partial_rect\<lparr>o_shape := FRect 0 0\<rparr>], s_background = ''#ffffff''\<rparr>],
          historyIndex := 1, shapeStartX := 10, shapeStartY := 20,
          activeShape := Some 0, isDrawingShape := True\<rparr>"
  unfolding interrupted_drag_def dragging_eq
  by (simp add: setTool_def applyTool_def removeShapeListeners_def map_canvas_def
      set_all_selectable_def Let_def init_def blank_canvas_def)






subsection \<open>Tool changes during a shape drag\<close>

text \<open>
  Claim C7 says that a tool change during a shape drag cancels the gesture and commits
  no partial object. The code does not keep to it: \<open>setTool\<close> only detaches the
  pointer handlers. At a rectangle dragged from (10, 20) to (30, 40) when the select
  tool is chosen, the rectangle is still an object of the canvas afterwards and the
  history holds the entry with it that was captured when it was added. The gesture
  state stays set, which pointer-up would reset: when the rectangle tool is chosen
  again its next pointer-down returns at once, and the next pointer-up commits the
  stale rectangle with a further capture.
\<close>

theorem tool_switch_keeps_partial_shape:
  "map props (objects (the (canvas interrupted_drag))) = [partial_rect]
   \<and> history interrupted_drag
       = [\<lparr>s_objects = [], s_background = ''#ffffff''\<rparr>,
          \<lparr>s_objects = [partial_rect\<lparr>o_shape := FRect 0 0\<rparr>], s_background = ''#ffffff''\<rparr>]
   \<and> isDrawingShape interrupted_drag \<and> activeShape interrupted_drag = Some 0
   \<and> mouse_down (50, 60) (setTool Rect interrupted_drag) = setTool Rect interrupted_drag
   \<and> history (mouse_up (setTool Rect interrupted_drag))
       = [\<lparr>s_objects = [], s_background = ''#ffffff''\<rparr>,
          \<lparr>s_objects = [partial_rect\<lparr>o_shape := FRect 0 0\<rparr>], s_background = ''#ffffff''\<rparr>,
          \<lparr>s_objects = [partial_rect], s_background = ''#ffffff''\<rparr>]"
  unfolding interrupted_drag_eq
  by (simp add: setTool_def applyTool_def removeShapeListeners_def map_canvas_def
      set_all_selectable_def mouse_down_def shape_mouse_down_def mouse_up_def
      shape_mouse_up_def object_set_def saveHistory_def Let_def
      init_def blank_canvas_def toJSON_def)

subsection \<open>Instances\<close>

lemma one_edit_eq:
  "one_edit = init\<lparr>canvas := Some (blank_canvas\<lparr>objects := [\<lparr>oid = 0, selectable = True, props = dot\<rparr>]\<rparr>),
       history := [toJSON blank_canvas, \<lparr>s_objects = [dot], s_background = ''#ffffff''\<rparr>],
       historyIndex := 1\<rparr>"
  unfolding one_edit_def setCanvas_init
  by (simp add: mutate_def fire_def saveHistory_def Let_def map_canvas_def
      init_def blank_canvas_def add_dot_def toJSON_def)

lemma one_edit_ok: "hist_ok one_edit"
  unfolding one_edit_eq by (simp add: hist_ok_def init_def js_nth_def toJSON_def blank_canvas_def)

theorem history_bounded_witness:
  "cursor_ok full_history \<and> length (history full_history) = 50 \<and> historyIndex full_history = 49
   \<and> length (history (saveHistory full_history)) = 50
   \<and> historyIndex (saveHistory full_history) = 49
   \<and> cursor_ok one_edit \<and> historyIndex one_edit < 49
   \<and> take 2 (history (saveHistory one_edit)) = history one_edit
   \<and> length (history (run [Mutate add_dot, Undo] (setCanvas blank_canvas init))) \<le> 50"
proof -
  note f = full_history_ok
  from history_bounded [of _ _ full_history] f
  have a: "length (history (saveHistory full_history)) = 50"
    "historyIndex (saveHistory full_history) = 49" by simp_all
  have o: "cursor_ok one_edit" using one_edit_ok by (rule hist_ok_cursor_ok)
  have i: "historyIndex one_edit < 49" "historyIndex one_edit = 1" "length (history one_edit) = 2"
    unfolding one_edit_eq by simp_all
  from history_bounded [of _ _ one_edit] o i
  have b: "take 2 (history (saveHistory one_edit)) = history one_edit" by simp
  from history_bounded [of "[Mutate add_dot, Undo]" blank_canvas]
  have c: "length (history (run [Mutate add_dot, Undo] (setCanvas blank_canvas init))) \<le> 50"
    by blast
  from f a o i(1) b c show ?thesis by blast
qed

end
